theory Spec2Isabelle
  imports Complex_Main
begin

section \<open>Values, errors and the state of a \<open>classify\<close> object\<close>

text \<open>
  The module \<^verbatim>\<open>graph.py\<close> holds (after the plotting class) the class \<^verbatim>\<open>classify\<close> with
  the two classifiers of the EOG stream: \<^verbatim>\<open>treshold\<close>, a hysteresis state machine over the
  amplitude deltas, and \<^verbatim>\<open>template_match\<close>, a sliding window compared with gesture templates
  by \<^verbatim>\<open>scipy.stats.pearsonr\<close>.

  Python floats are modelled as \<open>real\<close>: the methods only subtract two amplitudes and compare
  with constants, and the rounding of the one subtraction is not modelled. The attributes that
  \<^verbatim>\<open>template_match\<close> handles are dynamically typed, so they are values of \<open>pyval\<close>: a
  list of floats, a number (the templates are the integer 0 after construction) or \<^verbatim>\<open>None\<close>.
\<close>

datatype pyval = PNone | PNum real | PList "real list"

text \<open>
  The exceptions a call can end with. \<open>PearsonrError\<close> stands for the exception raised inside
  \<^verbatim>\<open>scipy.stats.pearsonr\<close> when its arguments are not two sequences of one length of at
  least 2 (a \<^verbatim>\<open>TypeError\<close> or a \<^verbatim>\<open>ValueError\<close>, depending on the argument).
\<close>

datatype error = AttributeError | IndexError | PearsonrError

text \<open>
  The attributes of the object. The first sixteen are created by \<^verbatim>\<open>__init__\<close>; the others
  are created by the methods, which always write them before reading them (a result of
  \<^verbatim>\<open>pearsonr\<close> is kept by its first component, the coefficient, \<open>None\<close> for NaN).
  The flags are Python integers, tested with \<^verbatim>\<open>== 1\<close>.
\<close>

record classify =
  vertical_prev_amplitude :: real
  horizontal_prev_amplitude :: real
  left_flag :: int
  right_flag :: int
  up_flag :: int
  down_flag :: int
  status :: string
  iterator :: int
  vertical_signal_stack :: pyval
  horizontal_signal_stack :: pyval
  cross_corr_tresh :: real
  left_template :: pyval
  right_template :: pyval
  blink_template :: pyval
  up_template :: pyval
  down_template :: pyval
  upper_thresh_vertical :: real
  lower_thresh_vertical :: real
  upper_thresh_horizontal :: real
  lower_thresh_horizontal :: real
  difference_tresh :: real
  vertical_amplitude :: real
  horizontal_amplitude :: real
  vertical_difference :: real
  horizontal_difference :: real
  left_corr :: "real option"
  right_corr :: "real option"
  up_corr :: "real option"
  down_corr :: "real option"
  blink_corr :: "real option"

text \<open>
  \<^verbatim>\<open>classify.__init__\<close>. The attributes that do not exist yet are given 0 (or NaN): no
  method reads them before writing them.
\<close>

definition classify_init :: classify where
  "classify_init =
     \<lparr> vertical_prev_amplitude = 0, horizontal_prev_amplitude = 0,
       left_flag = 0, right_flag = 0, up_flag = 0, down_flag = 0,
       status = ''centre'', iterator = 0,
       vertical_signal_stack = PList [], horizontal_signal_stack = PList [],
       cross_corr_tresh = 9 / 10,
       left_template = PNum 0, right_template = PNum 0, blink_template = PNum 0,
       up_template = PNum 0, down_template = PNum 0,
       upper_thresh_vertical = 0, lower_thresh_vertical = 0,
       upper_thresh_horizontal = 0, lower_thresh_horizontal = 0, difference_tresh = 0,
       vertical_amplitude = 0, horizontal_amplitude = 0,
       vertical_difference = 0, horizontal_difference = 0,
       left_corr = None, right_corr = None, up_corr = None, down_corr = None,
       blink_corr = None \<rparr>"

section \<open>The threshold classifier\<close>

text \<open>
  \<^verbatim>\<open>treshold\<close>, lines 95 to 109: the thresholds are (re)assigned on every call, the deltas
  are taken against the stored previous amplitudes, and the current amplitudes are stored.
\<close>

definition treshold_update :: "classify \<Rightarrow> real \<Rightarrow> real \<Rightarrow> classify" where
  "treshold_update s v h =
     (let s = s\<lparr>upper_thresh_vertical := 100\<rparr>;
          s = s\<lparr>lower_thresh_vertical := 100\<rparr>;
          s = s\<lparr>upper_thresh_horizontal := 3\<rparr>;
          s = s\<lparr>lower_thresh_horizontal := 2\<rparr>;
          s = s\<lparr>difference_tresh := 1 / 2\<rparr>;
          s = s\<lparr>vertical_amplitude := v\<rparr>;
          s = s\<lparr>horizontal_amplitude := h\<rparr>;
          s = s\<lparr>vertical_difference := vertical_amplitude s - vertical_prev_amplitude s\<rparr>;
          s = s\<lparr>horizontal_difference :=
                  horizontal_amplitude s - horizontal_prev_amplitude s\<rparr>;
          s = s\<lparr>horizontal_prev_amplitude := horizontal_amplitude s\<rparr>;
          s = s\<lparr>vertical_prev_amplitude := vertical_amplitude s\<rparr>
      in s)"

text \<open>
  Lines 112 to 123: the four checks that set a flag, each an \<^verbatim>\<open>if\<close> statement of its
  own, run in the order up, down, right, left.
\<close>

definition set_up :: "classify \<Rightarrow> classify" where
  "set_up s =
     (if vertical_amplitude s > upper_thresh_vertical s
         \<and> vertical_difference s > difference_tresh s
      then s\<lparr>up_flag := 1, status := ''up''\<rparr> else s)"

definition set_down :: "classify \<Rightarrow> classify" where
  "set_down s =
     (if vertical_amplitude s < lower_thresh_vertical s
         \<and> vertical_difference s < - (difference_tresh s)
      then s\<lparr>down_flag := 1, status := ''down''\<rparr> else s)"

definition set_right :: "classify \<Rightarrow> classify" where
  "set_right s =
     (if horizontal_amplitude s > upper_thresh_horizontal s
         \<and> horizontal_difference s > difference_tresh s
      then s\<lparr>right_flag := 1, status := ''right''\<rparr> else s)"

definition set_left :: "classify \<Rightarrow> classify" where
  "set_left s =
     (if horizontal_amplitude s < lower_thresh_horizontal s
         \<and> horizontal_difference s < - (difference_tresh s)
      then s\<lparr>left_flag := 1, status := ''left''\<rparr> else s)"

definition treshold_set :: "classify \<Rightarrow> classify" where
  "treshold_set s = set_left (set_right (set_down (set_up s)))"

text \<open>
  Lines 124 to 135: the four checks that clear a flag, run in the order up, down, right,
  left.
\<close>

definition clear_up :: "classify \<Rightarrow> classify" where
  "clear_up s =
     (if up_flag s = 1 \<and> vertical_difference s < - (difference_tresh s)
      then s\<lparr>up_flag := 0, status := ''center''\<rparr> else s)"

definition clear_down :: "classify \<Rightarrow> classify" where
  "clear_down s =
     (if down_flag s = 1 \<and> vertical_difference s > difference_tresh s
      then s\<lparr>down_flag := 0, status := ''center''\<rparr> else s)"

definition clear_right :: "classify \<Rightarrow> classify" where
  "clear_right s =
     (if right_flag s = 1 \<and> horizontal_difference s < - (difference_tresh s)
      then s\<lparr>right_flag := 0, status := ''center''\<rparr> else s)"

definition clear_left :: "classify \<Rightarrow> classify" where
  "clear_left s =
     (if left_flag s = 1 \<and> horizontal_difference s > difference_tresh s
      then s\<lparr>left_flag := 0, status := ''center''\<rparr> else s)"

definition treshold_clear :: "classify \<Rightarrow> classify" where
  "treshold_clear s = clear_left (clear_right (clear_down (clear_up s)))"

text \<open>
  \<^verbatim>\<open>treshold(vertical_amplitude, horizontal_amplitude)\<close>: the object after the call and the
  returned \<^verbatim>\<open>self.status\<close>.
\<close>

definition treshold :: "classify \<Rightarrow> real \<Rightarrow> real \<Rightarrow> classify \<times> string" where
  "treshold s v h =
     (let s = treshold_clear (treshold_set (treshold_update s v h)) in (s, status s))"

text \<open>A stream of samples (vertical, horizontal) fed to one object: the labels returned.\<close>

fun treshold_run :: "classify \<Rightarrow> (real \<times> real) list \<Rightarrow> string list" where
  "treshold_run s [] = []"
| "treshold_run s (x # xs) =
     (let r = treshold s (fst x) (snd x) in snd r # treshold_run (fst r) xs)"

text \<open>
  The labels of the specification. The source returns strings, and spells the centre label
  \<^verbatim>\<open>"centre"\<close> at construction and \<^verbatim>\<open>"center"\<close> when a flag is cleared; both are read as
  \<open>Center\<close>.
\<close>

datatype DirectionLabel = Center | Up | Down | Left | Right | Blink

definition direction_label :: "string \<Rightarrow> DirectionLabel option" where
  "direction_label l =
     (if l = ''centre'' \<or> l = ''center'' then Some Center
      else if l = ''up'' then Some Up
      else if l = ''down'' then Some Down
      else if l = ''left'' then Some Left
      else if l = ''right'' then Some Right
      else if l = ''blink'' then Some Blink
      else None)"

text \<open>
  How many of the four direction flags differ between two states of the object.
\<close>

definition changed_flags :: "classify \<Rightarrow> classify \<Rightarrow> nat" where
  "changed_flags s t =
     (if up_flag t = up_flag s then 0 else 1) + (if down_flag t = down_flag s then 0 else 1)
     + (if left_flag t = left_flag s then 0 else 1)
     + (if right_flag t = right_flag s then 0 else 1)"

section \<open>The correlation classifier\<close>

text \<open>
  The two list methods that \<^verbatim>\<open>template_match\<close> calls, on a dynamically typed value: the
  object after the call and the value the call returns. \<^verbatim>\<open>append\<close> extends a list in place
  and returns \<^verbatim>\<open>None\<close>; \<^verbatim>\<open>pop(0)\<close> removes and returns the first element, and raises
  \<^verbatim>\<open>IndexError\<close> on an empty list. A value that is no list has neither method.
\<close>

definition py_append :: "pyval \<Rightarrow> real \<Rightarrow> error + (pyval \<times> pyval)" where
  "py_append x v =
     (case x of
        PList xs \<Rightarrow> Inr (PList (xs @ [v]), PNone)
      | PNone \<Rightarrow> Inl AttributeError
      | PNum a \<Rightarrow> Inl AttributeError)"

definition py_pop0 :: "pyval \<Rightarrow> error + (pyval \<times> pyval)" where
  "py_pop0 x =
     (case x of
        PList xs \<Rightarrow> (case xs of [] \<Rightarrow> Inl IndexError | a # r \<Rightarrow> Inr (PList r, PNum a))
      | PNone \<Rightarrow> Inl AttributeError
      | PNum a \<Rightarrow> Inl AttributeError)"

text \<open>
  \<^verbatim>\<open>template_match\<close>, lines 143 to 150: the amplitudes are stored, each stack attribute is
  rebound to what \<^verbatim>\<open>append\<close> returns, and when \<^verbatim>\<open>self.iterator > template_size\<close> the first
  element of each stack is popped. Nothing in the class changes \<^verbatim>\<open>self.iterator\<close>.
\<close>

definition template_match_push :: "classify \<Rightarrow> real \<Rightarrow> real \<Rightarrow> int \<Rightarrow> error + classify" where
  "template_match_push s v h template_size =
     (let s = s\<lparr>vertical_amplitude := v\<rparr>;
          s = s\<lparr>horizontal_amplitude := h\<rparr>
      in case py_append (vertical_signal_stack s) v of
           Inl e \<Rightarrow> Inl e
         | Inr a \<Rightarrow>
             (let s = s\<lparr>vertical_signal_stack := snd a\<rparr>
              in case py_append (horizontal_signal_stack s) h of
                   Inl e \<Rightarrow> Inl e
                 | Inr b \<Rightarrow>
                     (let s = s\<lparr>horizontal_signal_stack := snd b\<rparr>
                      in if iterator s > template_size
                         then (case py_pop0 (vertical_signal_stack s) of
                                 Inl e \<Rightarrow> Inl e
                               | Inr c \<Rightarrow>
                                   (let s = s\<lparr>vertical_signal_stack := fst c\<rparr>
                                    in case py_pop0 (horizontal_signal_stack s) of
                                         Inl e \<Rightarrow> Inl e
                                       | Inr d \<Rightarrow> Inr (s\<lparr>horizontal_signal_stack := fst d\<rparr>)))
                         else Inr s)))"

text \<open>
  \<^verbatim>\<open>scipy.stats.pearsonr(x, y)[0]\<close>. The function belongs to the SciPy library, not to
  this repository, and is modelled after its documentation: it raises unless both arguments
  are sequences of one length of at least 2; it returns NaN (here \<open>None\<close>), with a warning,
  when an argument is constant; otherwise it returns the Pearson coefficient of the two
  sequences, clipped to the interval from -1 to 1. The coefficient is written here in exact
  real arithmetic. SciPy computes it in double precision, and its result can differ from
  the exact value in the last place: the window 0, 4, 7, 6, 8 against the template 1, 2, 3,
  4, 5 has the exact coefficient 9/10, and in doubles a coefficient just above the double
  0.9. So the model does not decide how a computed coefficient compares with 0.9 at that
  boundary, and no theorem below rests on the value of a coefficient: the calls that are
  proved about end before one is computed.
\<close>

definition pearsonr :: "pyval \<Rightarrow> pyval \<Rightarrow> error + real option" where
  "pearsonr x y =
     (case x of
        PList xs \<Rightarrow>
          (case y of
             PList ys \<Rightarrow>
               if length xs \<noteq> length ys then Inl PearsonrError
               else if length xs < 2 then Inl PearsonrError
               else if list_all (\<lambda>a. a = hd xs) xs \<or> list_all (\<lambda>b. b = hd ys) ys
               then Inr None
               else
                 (let xm = map (\<lambda>a. a - sum_list xs / real (length xs)) xs;
                      ym = map (\<lambda>b. b - sum_list ys / real (length ys)) ys;
                      r = sum_list (map2 (*) xm ym)
                          / (sqrt (sum_list (map (\<lambda>a. a * a) xm))
                             * sqrt (sum_list (map (\<lambda>b. b * b) ym)))
                  in Inr (Some (max (min r 1) (- 1))))
           | PNone \<Rightarrow> Inl PearsonrError
           | PNum b \<Rightarrow> Inl PearsonrError)
      | PNone \<Rightarrow> Inl PearsonrError
      | PNum a \<Rightarrow> Inl PearsonrError)"

text \<open>
  Lines 152 to 156: the five coefficients, in the order left, right, up, down, blink; the
  horizontal stack is compared with the left and right templates, the vertical stack with
  the up, down and blink templates.
\<close>

definition template_match_correlate :: "classify \<Rightarrow> error + classify" where
  "template_match_correlate s =
     (case pearsonr (horizontal_signal_stack s) (left_template s) of
        Inl e \<Rightarrow> Inl e
      | Inr cl \<Rightarrow>
     (case pearsonr (horizontal_signal_stack s) (right_template s) of
        Inl e \<Rightarrow> Inl e
      | Inr cr \<Rightarrow>
     (case pearsonr (vertical_signal_stack s) (up_template s) of
        Inl e \<Rightarrow> Inl e
      | Inr cu \<Rightarrow>
     (case pearsonr (vertical_signal_stack s) (down_template s) of
        Inl e \<Rightarrow> Inl e
      | Inr cd \<Rightarrow>
     (case pearsonr (vertical_signal_stack s) (blink_template s) of
        Inl e \<Rightarrow> Inl e
      | Inr cb \<Rightarrow>
          Inr (s\<lparr>left_corr := cl, right_corr := cr, up_corr := cu, down_corr := cd,
                 blink_corr := cb\<rparr>))))))"

text \<open>The comparison \<^verbatim>\<open>c > t\<close> of floats: false when \<^verbatim>\<open>c\<close> is NaN.\<close>

definition corr_gt :: "real option \<Rightarrow> real \<Rightarrow> bool" where
  "corr_gt c t = (case c of None \<Rightarrow> False | Some r \<Rightarrow> r > t)"

text \<open>
  Lines 158 to 167: five \<^verbatim>\<open>if\<close> statements, each comparing a coefficient with the literal
  0.9 and overwriting \<^verbatim>\<open>self.status\<close>, run in the order left, right, up, down, blink.
\<close>

definition match_left :: "classify \<Rightarrow> classify" where
  "match_left s = (if corr_gt (left_corr s) (9 / 10) then s\<lparr>status := ''left''\<rparr> else s)"

definition match_right :: "classify \<Rightarrow> classify" where
  "match_right s = (if corr_gt (right_corr s) (9 / 10) then s\<lparr>status := ''right''\<rparr> else s)"

definition match_up :: "classify \<Rightarrow> classify" where
  "match_up s = (if corr_gt (up_corr s) (9 / 10) then s\<lparr>status := ''up''\<rparr> else s)"

definition match_down :: "classify \<Rightarrow> classify" where
  "match_down s = (if corr_gt (down_corr s) (9 / 10) then s\<lparr>status := ''down''\<rparr> else s)"

definition match_blink :: "classify \<Rightarrow> classify" where
  "match_blink s = (if corr_gt (blink_corr s) (9 / 10) then s\<lparr>status := ''blink''\<rparr> else s)"

definition template_match_select :: "classify \<Rightarrow> classify" where
  "template_match_select s = match_blink (match_down (match_up (match_right (match_left s))))"

text \<open>Lines 152 to 169: the comparisons, the five checks, and the status returned.\<close>

definition template_match_label :: "classify \<Rightarrow> error + (classify \<times> string)" where
  "template_match_label s =
     (case template_match_correlate s of
        Inl e \<Rightarrow> Inl e
      | Inr c \<Rightarrow> (let s = template_match_select c in Inr (s, status s)))"

text \<open>
  \<^verbatim>\<open>template_match(vertical_amplitude, horizontal_amplitude, template_size)\<close>: the exception
  that ends the call, or the object after the call and the returned status.
\<close>

definition template_match ::
  "classify \<Rightarrow> real \<Rightarrow> real \<Rightarrow> int \<Rightarrow> error + (classify \<times> string)" where
  "template_match s v h template_size =
     (case template_match_push s v h template_size of
        Inl e \<Rightarrow> Inl e
      | Inr s \<Rightarrow> template_match_label s)"

text \<open>
  A stream of samples (vertical, horizontal) fed to one object by repeated calls with one
  template size: the labels returned, or the exception of the first call that raises.
  Nothing in the class catches an exception, so it ends the stream.
\<close>

fun template_match_run :: "classify \<Rightarrow> (real \<times> real) list \<Rightarrow> int \<Rightarrow> error + string list" where
  "template_match_run s [] template_size = Inr []"
| "template_match_run s (x # xs) template_size =
     (case template_match s (fst x) (snd x) template_size of
        Inl e \<Rightarrow> Inl e
      | Inr r \<Rightarrow>
          (case template_match_run (fst r) xs template_size of
             Inl e \<Rightarrow> Inl e
           | Inr ls \<Rightarrow> Inr (snd r # ls)))"

section \<open>One call of the threshold classifier, field by field\<close>

lemma treshold_update_eq:
  "treshold_update s v h =
     s\<lparr>upper_thresh_vertical := 100, lower_thresh_vertical := 100,
       upper_thresh_horizontal := 3, lower_thresh_horizontal := 2, difference_tresh := 1 / 2,
       vertical_amplitude := v, horizontal_amplitude := h,
       vertical_difference := v - vertical_prev_amplitude s,
       horizontal_difference := h - horizontal_prev_amplitude s,
       horizontal_prev_amplitude := h, vertical_prev_amplitude := v\<rparr>"
  by (simp add: treshold_update_def Let_def)

lemma treshold_update_fields:
  "upper_thresh_vertical (treshold_update s v h) = 100"
  "lower_thresh_vertical (treshold_update s v h) = 100"
  "upper_thresh_horizontal (treshold_update s v h) = 3"
  "lower_thresh_horizontal (treshold_update s v h) = 2"
  "difference_tresh (treshold_update s v h) = 1 / 2"
  "vertical_amplitude (treshold_update s v h) = v"
  "horizontal_amplitude (treshold_update s v h) = h"
  "vertical_difference (treshold_update s v h) = v - vertical_prev_amplitude s"
  "horizontal_difference (treshold_update s v h) = h - horizontal_prev_amplitude s"
  "vertical_prev_amplitude (treshold_update s v h) = v"
  "horizontal_prev_amplitude (treshold_update s v h) = h"
  "up_flag (treshold_update s v h) = up_flag s"
  "down_flag (treshold_update s v h) = down_flag s"
  "right_flag (treshold_update s v h) = right_flag s"
  "left_flag (treshold_update s v h) = left_flag s"
  "status (treshold_update s v h) = status s"
  by (simp_all add: treshold_update_eq)

text \<open>Each check is an update of one flag and of the status, by values that hold the test.\<close>

lemma set_eqs:
  "set_up s = s\<lparr>up_flag := (if vertical_amplitude s > upper_thresh_vertical s
         \<and> vertical_difference s > difference_tresh s then 1 else up_flag s),
      status := (if vertical_amplitude s > upper_thresh_vertical s
         \<and> vertical_difference s > difference_tresh s then ''up'' else status s)\<rparr>"
  "set_down s = s\<lparr>down_flag := (if vertical_amplitude s < lower_thresh_vertical s
         \<and> vertical_difference s < - (difference_tresh s) then 1 else down_flag s),
      status := (if vertical_amplitude s < lower_thresh_vertical s
         \<and> vertical_difference s < - (difference_tresh s) then ''down'' else status s)\<rparr>"
  "set_right s = s\<lparr>right_flag := (if horizontal_amplitude s > upper_thresh_horizontal s
         \<and> horizontal_difference s > difference_tresh s then 1 else right_flag s),
      status := (if horizontal_amplitude s > upper_thresh_horizontal s
         \<and> horizontal_difference s > difference_tresh s then ''right'' else status s)\<rparr>"
  "set_left s = s\<lparr>left_flag := (if horizontal_amplitude s < lower_thresh_horizontal s
         \<and> horizontal_difference s < - (difference_tresh s) then 1 else left_flag s),
      status := (if horizontal_amplitude s < lower_thresh_horizontal s
         \<and> horizontal_difference s < - (difference_tresh s) then ''left'' else status s)\<rparr>"
  by (simp_all add: set_up_def set_down_def set_right_def set_left_def)

lemma clear_eqs:
  "clear_up s = s\<lparr>up_flag :=
        (if up_flag s = 1 \<and> vertical_difference s < - (difference_tresh s)
         then 0 else up_flag s),
      status := (if up_flag s = 1 \<and> vertical_difference s < - (difference_tresh s)
        then ''center'' else status s)\<rparr>"
  "clear_down s = s\<lparr>down_flag :=
        (if down_flag s = 1 \<and> vertical_difference s > difference_tresh s
         then 0 else down_flag s),
      status := (if down_flag s = 1 \<and> vertical_difference s > difference_tresh s
        then ''center'' else status s)\<rparr>"
  "clear_right s = s\<lparr>right_flag :=
        (if right_flag s = 1 \<and> horizontal_difference s < - (difference_tresh s)
         then 0 else right_flag s),
      status := (if right_flag s = 1 \<and> horizontal_difference s < - (difference_tresh s)
        then ''center'' else status s)\<rparr>"
  "clear_left s = s\<lparr>left_flag :=
        (if left_flag s = 1 \<and> horizontal_difference s > difference_tresh s
         then 0 else left_flag s),
      status := (if left_flag s = 1 \<and> horizontal_difference s > difference_tresh s
        then ''center'' else status s)\<rparr>"
  by (simp_all add: clear_up_def clear_down_def clear_right_def clear_left_def)

lemma treshold_set_status:
  "status (treshold_set s) =
     (if horizontal_amplitude s < lower_thresh_horizontal s
         \<and> horizontal_difference s < - (difference_tresh s) then ''left''
      else if horizontal_amplitude s > upper_thresh_horizontal s
         \<and> horizontal_difference s > difference_tresh s then ''right''
      else if vertical_amplitude s < lower_thresh_vertical s
         \<and> vertical_difference s < - (difference_tresh s) then ''down''
      else if vertical_amplitude s > upper_thresh_vertical s
         \<and> vertical_difference s > difference_tresh s then ''up''
      else status s)"
  by (simp add: treshold_set_def set_eqs)

lemma treshold_set_flags:
  "up_flag (treshold_set s) =
     (if vertical_amplitude s > upper_thresh_vertical s
         \<and> vertical_difference s > difference_tresh s
      then 1 else up_flag s)"
  "down_flag (treshold_set s) =
     (if vertical_amplitude s < lower_thresh_vertical s
         \<and> vertical_difference s < - (difference_tresh s)
      then 1 else down_flag s)"
  "right_flag (treshold_set s) =
     (if horizontal_amplitude s > upper_thresh_horizontal s
         \<and> horizontal_difference s > difference_tresh s
      then 1 else right_flag s)"
  "left_flag (treshold_set s) =
     (if horizontal_amplitude s < lower_thresh_horizontal s
         \<and> horizontal_difference s < - (difference_tresh s)
      then 1 else left_flag s)"
  by (simp_all add: treshold_set_def set_eqs)

lemma treshold_set_frame:
  "vertical_difference (treshold_set s) = vertical_difference s"
  "horizontal_difference (treshold_set s) = horizontal_difference s"
  "difference_tresh (treshold_set s) = difference_tresh s"
  "vertical_prev_amplitude (treshold_set s) = vertical_prev_amplitude s"
  "horizontal_prev_amplitude (treshold_set s) = horizontal_prev_amplitude s"
  by (simp_all add: treshold_set_def set_eqs)

lemma treshold_clear_status:
  "status (treshold_clear s) =
     (if left_flag s = 1 \<and> horizontal_difference s > difference_tresh s then ''center''
      else if right_flag s = 1 \<and> horizontal_difference s < - (difference_tresh s)
        then ''center''
      else if down_flag s = 1 \<and> vertical_difference s > difference_tresh s then ''center''
      else if up_flag s = 1 \<and> vertical_difference s < - (difference_tresh s) then ''center''
      else status s)"
  by (simp add: treshold_clear_def clear_eqs)

lemma treshold_clear_flags:
  "up_flag (treshold_clear s) =
     (if up_flag s = 1 \<and> vertical_difference s < - (difference_tresh s)
      then 0 else up_flag s)"
  "down_flag (treshold_clear s) =
     (if down_flag s = 1 \<and> vertical_difference s > difference_tresh s
      then 0 else down_flag s)"
  "right_flag (treshold_clear s) =
     (if right_flag s = 1 \<and> horizontal_difference s < - (difference_tresh s)
      then 0 else right_flag s)"
  "left_flag (treshold_clear s) =
     (if left_flag s = 1 \<and> horizontal_difference s > difference_tresh s
      then 0 else left_flag s)"
  by (simp_all add: treshold_clear_def clear_eqs)

lemma treshold_clear_frame:
  "vertical_difference (treshold_clear s) = vertical_difference s"
  "horizontal_difference (treshold_clear s) = horizontal_difference s"
  "difference_tresh (treshold_clear s) = difference_tresh s"
  "vertical_prev_amplitude (treshold_clear s) = vertical_prev_amplitude s"
  "horizontal_prev_amplitude (treshold_clear s) = horizontal_prev_amplitude s"
  by (simp_all add: treshold_clear_def clear_eqs)

lemma fst_treshold:
  "fst (treshold s v h) = treshold_clear (treshold_set (treshold_update s v h))"
  by (simp add: treshold_def Let_def)

lemma snd_treshold: "snd (treshold s v h) = status (fst (treshold s v h))"
  by (simp add: treshold_def Let_def)

text \<open>
  A set check and the clear check of the same flag ask for deltas of opposite signs, so the
  flag that a clear check reads is the flag as it was before the call.
\<close>

lemma clear_after_set:
  "((if P \<and> x < - (1 / 2) then (1::int) else f) = 1 \<and> 1 / 2 < (x::real))
     = (f = 1 \<and> 1 / 2 < x)"
  "((if P \<and> 1 / 2 < x then (1::int) else f) = 1 \<and> x < - (1 / 2))
     = (f = 1 \<and> x < - (1 / 2))"
  by auto

lemma set_then_clear:
  "(if (if P \<and> 1 / 2 < (x::real) then (1::int) else f) = 1 \<and> x < - (1 / 2) then 0
    else (if P \<and> 1 / 2 < x then 1 else f))
     = (if P \<and> 1 / 2 < x then 1 else if f = 1 \<and> x < - (1 / 2) then 0 else f)"
  "(if (if P \<and> x < - (1 / 2) then (1::int) else f) = 1 \<and> 1 / 2 < x then 0
    else (if P \<and> x < - (1 / 2) then 1 else f))
     = (if P \<and> x < - (1 / 2) then 1 else if f = 1 \<and> 1 / 2 < x then 0 else f)"
  by auto

lemma treshold_prev:
  "vertical_prev_amplitude (fst (treshold s v h)) = v"
  "horizontal_prev_amplitude (fst (treshold s v h)) = h"
  "vertical_difference (fst (treshold s v h)) = v - vertical_prev_amplitude s"
  "horizontal_difference (fst (treshold s v h)) = h - horizontal_prev_amplitude s"
  unfolding fst_treshold treshold_clear_frame treshold_set_frame treshold_update_fields
  by (rule refl)+

lemma treshold_flags:
  "up_flag (fst (treshold s v h)) =
     (if 100 < v \<and> 1 / 2 < v - vertical_prev_amplitude s then 1
      else if up_flag s = 1 \<and> v - vertical_prev_amplitude s < - (1 / 2) then 0
      else up_flag s)"
  "down_flag (fst (treshold s v h)) =
     (if v < 100 \<and> v - vertical_prev_amplitude s < - (1 / 2) then 1
      else if down_flag s = 1 \<and> 1 / 2 < v - vertical_prev_amplitude s then 0
      else down_flag s)"
  "right_flag (fst (treshold s v h)) =
     (if 3 < h \<and> 1 / 2 < h - horizontal_prev_amplitude s then 1
      else if right_flag s = 1 \<and> h - horizontal_prev_amplitude s < - (1 / 2) then 0
      else right_flag s)"
  "left_flag (fst (treshold s v h)) =
     (if h < 2 \<and> h - horizontal_prev_amplitude s < - (1 / 2) then 1
      else if left_flag s = 1 \<and> 1 / 2 < h - horizontal_prev_amplitude s then 0
      else left_flag s)"
  unfolding fst_treshold treshold_clear_flags treshold_clear_frame treshold_set_flags
    treshold_set_frame treshold_update_fields set_then_clear
  by (rule refl)+

lemma treshold_status:
  "status (fst (treshold s v h)) =
     (if left_flag s = 1 \<and> 1 / 2 < h - horizontal_prev_amplitude s then ''center''
      else if right_flag s = 1 \<and> h - horizontal_prev_amplitude s < - (1 / 2) then ''center''
      else if down_flag s = 1 \<and> 1 / 2 < v - vertical_prev_amplitude s then ''center''
      else if up_flag s = 1 \<and> v - vertical_prev_amplitude s < - (1 / 2) then ''center''
      else if h < 2 \<and> h - horizontal_prev_amplitude s < - (1 / 2) then ''left''
      else if 3 < h \<and> 1 / 2 < h - horizontal_prev_amplitude s then ''right''
      else if v < 100 \<and> v - vertical_prev_amplitude s < - (1 / 2) then ''down''
      else if 100 < v \<and> 1 / 2 < v - vertical_prev_amplitude s then ''up''
      else status s)"
  unfolding fst_treshold treshold_clear_status treshold_set_status treshold_set_flags
    treshold_set_frame treshold_update_fields clear_after_set
  by (rule refl)

lemma classify_init_fields:
  "vertical_prev_amplitude classify_init = 0" "horizontal_prev_amplitude classify_init = 0"
  "up_flag classify_init = 0" "down_flag classify_init = 0" "right_flag classify_init = 0"
  "left_flag classify_init = 0" "status classify_init = ''centre''"
  "iterator classify_init = 0"
  "vertical_signal_stack classify_init = PList []"
  "horizontal_signal_stack classify_init = PList []"
  by (simp_all add: classify_init_def)

section \<open>The example stream of the specification\<close>

lemma treshold_run_Cons:
  "treshold_run s ((v, h) # xs) = status (fst (treshold s v h)) # treshold_run (fst (treshold s v h)) xs"
  by (simp add: Let_def snd_treshold)

lemma treshold_example_states:
  assumes c: "- (1 / 2) \<le> c" "c \<le> 3"
  defines "s1 \<equiv> fst (treshold classify_init 0 c)"
  defines "s2 \<equiv> fst (treshold s1 50 c)"
  defines "s3 \<equiv> fst (treshold s2 101 c)"
  defines "s4 \<equiv> fst (treshold s3 (1016 / 10) c)"
  shows "status s1 = ''centre''" "status s2 = ''centre''" "status s3 = ''up''" "status s4 = ''up''"
proof -
  have f1: "up_flag s1 = 0" "down_flag s1 = 0" "right_flag s1 = 0" "left_flag s1 = 0"
    "vertical_prev_amplitude s1 = 0" "horizontal_prev_amplitude s1 = c"
    using c by (simp_all add: s1_def treshold_flags treshold_prev classify_init_fields)
  show t1: "status s1 = ''centre''"
    using c by (simp add: s1_def treshold_status classify_init_fields)
  have f2: "up_flag s2 = 0" "down_flag s2 = 0" "right_flag s2 = 0" "left_flag s2 = 0"
    "vertical_prev_amplitude s2 = 50" "horizontal_prev_amplitude s2 = c"
    by (simp_all add: s2_def treshold_flags treshold_prev f1)
  show t2: "status s2 = ''centre''"
    by (simp add: s2_def treshold_status f1 t1)
  have f3: "up_flag s3 = 1" "down_flag s3 = 0" "right_flag s3 = 0" "left_flag s3 = 0"
    "vertical_prev_amplitude s3 = 101" "horizontal_prev_amplitude s3 = c"
    by (simp_all add: s3_def treshold_flags treshold_prev f2)
  show t3: "status s3 = ''up''"
    by (simp add: s3_def treshold_status f2 t2)
  show "status s4 = ''up''"
    by (simp add: s4_def treshold_status f3 t3)
qed

lemma treshold_example_left:
  "treshold_run classify_init [(0, - 1), (50, - 1), (101, - 1), (1016 / 10, - 1)]
           = [''left'', ''left'', ''up'', ''up'']"
proof -
  define s1 where "s1 = fst (treshold classify_init 0 (- 1))"
  define s2 where "s2 = fst (treshold s1 50 (- 1))"
  define s3 where "s3 = fst (treshold s2 101 (- 1))"
  define s4 where "s4 = fst (treshold s3 (1016 / 10) (- 1))"
  have f1: "up_flag s1 = 0" "down_flag s1 = 0" "right_flag s1 = 0" "left_flag s1 = 1"
    "vertical_prev_amplitude s1 = 0" "horizontal_prev_amplitude s1 = - 1"
    by (simp_all add: s1_def treshold_flags treshold_prev classify_init_fields)
  have t1: "status s1 = ''left''"
    by (simp add: s1_def treshold_status classify_init_fields)
  have f2: "up_flag s2 = 0" "down_flag s2 = 0" "right_flag s2 = 0" "left_flag s2 = 1"
    "vertical_prev_amplitude s2 = 50" "horizontal_prev_amplitude s2 = - 1"
    by (simp_all add: s2_def treshold_flags treshold_prev f1)
  have t2: "status s2 = ''left''"
    by (simp add: s2_def treshold_status f1 t1)
  have f3: "up_flag s3 = 1" "down_flag s3 = 0" "right_flag s3 = 0" "left_flag s3 = 1"
    "vertical_prev_amplitude s3 = 101" "horizontal_prev_amplitude s3 = - 1"
    by (simp_all add: s3_def treshold_flags treshold_prev f2)
  have t3: "status s3 = ''up''"
    by (simp add: s3_def treshold_status f2 t2)
  have t4: "status s4 = ''up''"
    by (simp add: s4_def treshold_status f3 t3)
  show ?thesis
    unfolding treshold_run_Cons
    using t1 t2 t3 t4 by (simp add: s1_def s2_def s3_def s4_def)
qed

text \<open>
  Claim C1, as the source has it. With the thresholds of \<^verbatim>\<open>treshold\<close> (100 for both
  vertical thresholds, a difference threshold of 0.5), a fresh object fed the vertical
  amplitudes 0, 50, 101, 101.6, the horizontal amplitude held at a constant \<open>c\<close> between
  -0.5 and 3, returns centre, centre, up, up: the third sample is above 100 and its delta
  of 51 is above 0.5, so the first check already fires there. (A constant below -0.5 makes
  the first delta fire the left check, see \<open>treshold_example_left\<close>.)
\<close>

theorem treshold_example_labels:
  assumes "- (1 / 2) \<le> c" and "c \<le> 3"
  shows "treshold_run classify_init [(0, c), (50, c), (101, c), (1016 / 10, c)]
           = [''centre'', ''centre'', ''up'', ''up'']
         \<and> map direction_label
             (treshold_run classify_init [(0, c), (50, c), (101, c), (1016 / 10, c)])
           = [Some Center, Some Center, Some Up, Some Up]"
proof -
  have "treshold_run classify_init [(0, c), (50, c), (101, c), (1016 / 10, c)]
           = [''centre'', ''centre'', ''up'', ''up'']"
    unfolding treshold_run_Cons treshold_example_states [OF assms] by simp
  then show ?thesis by (simp add: direction_label_def)
qed

theorem treshold_example_labels_witness:
  "- (1 / 2) \<le> (1::real) \<and> (1::real) \<le> 3
   \<and> map direction_label
        (treshold_run classify_init [(0, 1), (50, 1), (101, 1), (1016 / 10, 1)])
      = [Some Center, Some Center, Some Up, Some Up]"
proof -
  have h1: "- (1 / 2) \<le> (1::real)" and h2: "(1::real) \<le> 3"
    by simp_all
  from treshold_example_labels [OF h1 h2] h1 h2 show ?thesis
    by blast
qed

text \<open>
  Claim C1 as stated expects the labels Center, Center, Center, Up; with the horizontal
  amplitude held at 0 the third label is Up.
\<close>

theorem treshold_example_labels_refuted:
  "map direction_label
     (treshold_run classify_init [(0, 0), (50, 0), (101, 0), (1016 / 10, 0)])
   \<noteq> [Some Center, Some Center, Some Center, Some Up]"
proof -
  have h1: "- (1 / 2) \<le> (0::real)" and h2: "(0::real) \<le> 3"
    by simp_all
  have "treshold_run classify_init [(0, 0), (50, 0), (101, 0), (1016 / 10, 0)]
           = [''centre'', ''centre'', ''up'', ''up'']"
    unfolding treshold_run_Cons treshold_example_states [OF h1 h2] by simp
  then show ?thesis by (simp add: direction_label_def)
qed

section \<open>Properties of the threshold classifier\<close>

text \<open>
  Claim C8. Every call of \<^verbatim>\<open>treshold\<close> stores the current amplitudes as the previous
  ones, whatever the state and the sample, hence whichever of the eight checks fire; the
  deltas of the next call are therefore taken against the sample of this call.
\<close>

theorem treshold_stores_previous:
  "vertical_prev_amplitude (fst (treshold s v h)) = v
   \<and> horizontal_prev_amplitude (fst (treshold s v h)) = h
   \<and> vertical_difference (fst (treshold (fst (treshold s v h)) v' h')) = v' - v
   \<and> horizontal_difference (fst (treshold (fst (treshold s v h)) v' h')) = h' - h"
  by (simp add: treshold_prev)

lemma treshold_status_cases:
  "status (fst (treshold s v h)) = status s
   \<or> status (fst (treshold s v h)) = ''center''
   \<or> status (fst (treshold s v h)) = ''left''
   \<or> status (fst (treshold s v h)) = ''right''
   \<or> status (fst (treshold s v h)) = ''down''
   \<or> status (fst (treshold s v h)) = ''up''"
  unfolding treshold_status by simp

lemma treshold_status_not_blink:
  assumes "status s \<noteq> ''blink''"
  shows "status (fst (treshold s v h)) \<noteq> ''blink''"
  using assms treshold_status_cases [of s v h] by auto

lemma treshold_run_not_blink:
  "status s \<noteq> ''blink'' \<Longrightarrow> ''blink'' \<notin> set (treshold_run s xs)"
proof (induction xs arbitrary: s)
  case Nil
  show ?case by simp
next
  case (Cons x xs)
  obtain v h where x: "x = (v, h)"
    by (cases x)
  have st: "status (fst (treshold s v h)) \<noteq> ''blink''"
    using Cons.prems by (rule treshold_status_not_blink)
  from Cons.IH [OF st] st show ?case
    unfolding x treshold_run_Cons by simp
qed

lemma direction_label_Blink: "(direction_label l = Some Blink) = (l = ''blink'')"
  by (simp add: direction_label_def)

text \<open>
  Claim C9. Whatever the stream of samples fed to a fresh object, \<^verbatim>\<open>treshold\<close> never
  returns the blink label: the only assignment of \<^verbatim>\<open>"blink"\<close> is in \<^verbatim>\<open>template_match\<close>.
\<close>

theorem treshold_never_blink:
  "''blink'' \<notin> set (treshold_run classify_init xs)
   \<and> Some Blink \<notin> set (map direction_label (treshold_run classify_init xs))"
proof -
  have nb: "''blink'' \<notin> set (treshold_run classify_init xs)"
    by (rule treshold_run_not_blink) (simp add: classify_init_fields)
  moreover have "Some Blink \<notin> set (map direction_label (treshold_run classify_init xs))"
  proof
    assume "Some Blink \<in> set (map direction_label (treshold_run classify_init xs))"
    then obtain l where "l \<in> set (treshold_run classify_init xs)"
      and "direction_label l = Some Blink"
      by auto
    with nb show False
      by (simp add: direction_label_Blink)
  qed
  ultimately show ?thesis ..
qed



text \<open>
  Claim C6, as the source has it. The four flags are independent. A flag changes in a call
  only by its set check (it is 1 afterwards) or by its clear check (it was 1 and is 0
  afterwards), and each needs the delta of the flag's axis beyond 0.5 in magnitude. A delta
  above 0.5 can set up (right) and clear down (left) in the same call, a delta below -0.5
  can set down (left) and clear up (right): up to two flags of each axis, and all four
  together, can change in one call.
\<close>

theorem treshold_flag_changes:
  fixes s :: classify and v h :: real
  defines "t \<equiv> fst (treshold s v h)"
  defines "dv \<equiv> v - vertical_prev_amplitude s"
  defines "dh \<equiv> h - horizontal_prev_amplitude s"
  shows "(up_flag t \<noteq> up_flag s \<longrightarrow>
           (100 < v \<and> 1 / 2 < dv \<and> up_flag t = 1)
           \<or> (dv < - (1 / 2) \<and> up_flag s = 1 \<and> up_flag t = 0))
    \<and> (down_flag t \<noteq> down_flag s \<longrightarrow>
           (v < 100 \<and> dv < - (1 / 2) \<and> down_flag t = 1)
           \<or> (1 / 2 < dv \<and> down_flag s = 1 \<and> down_flag t = 0))
    \<and> (right_flag t \<noteq> right_flag s \<longrightarrow>
           (3 < h \<and> 1 / 2 < dh \<and> right_flag t = 1)
           \<or> (dh < - (1 / 2) \<and> right_flag s = 1 \<and> right_flag t = 0))
    \<and> (left_flag t \<noteq> left_flag s \<longrightarrow>
           (h < 2 \<and> dh < - (1 / 2) \<and> left_flag t = 1)
           \<or> (1 / 2 < dh \<and> left_flag s = 1 \<and> left_flag t = 0))"
  unfolding t_def dv_def dh_def treshold_flags
  by (auto split: if_splits)

lemma treshold_four_flags_change:
  "changed_flags (fst (treshold classify_init (- 1) (- 1)))
     (fst (treshold (fst (treshold classify_init (- 1) (- 1))) 101 4)) = 4"
proof -
  define b where "b = fst (treshold classify_init (- 1) (- 1))"
  have fb: "up_flag b = 0" "down_flag b = 1" "right_flag b = 0" "left_flag b = 1"
    "vertical_prev_amplitude b = - 1" "horizontal_prev_amplitude b = - 1"
    by (simp_all add: b_def treshold_flags treshold_prev classify_init_fields)
  have "up_flag (fst (treshold b 101 4)) = 1" "down_flag (fst (treshold b 101 4)) = 0"
    "right_flag (fst (treshold b 101 4)) = 1" "left_flag (fst (treshold b 101 4)) = 0"
    by (simp_all add: treshold_flags fb)
  then show ?thesis
    unfolding b_def [symmetric] changed_flags_def by (simp add: fb)
qed

theorem treshold_flag_changes_witness:
  "up_flag (fst (treshold (fst (treshold classify_init (- 1) (- 1))) 101 4))
     \<noteq> up_flag (fst (treshold classify_init (- 1) (- 1)))
   \<and> down_flag (fst (treshold (fst (treshold classify_init (- 1) (- 1))) 101 4))
     \<noteq> down_flag (fst (treshold classify_init (- 1) (- 1)))
   \<and> right_flag (fst (treshold (fst (treshold classify_init (- 1) (- 1))) 101 4))
     \<noteq> right_flag (fst (treshold classify_init (- 1) (- 1)))
   \<and> left_flag (fst (treshold (fst (treshold classify_init (- 1) (- 1))) 101 4))
     \<noteq> left_flag (fst (treshold classify_init (- 1) (- 1)))
   \<and> up_flag (fst (treshold (fst (treshold classify_init (- 1) (- 1))) 101 4)) = 1
   \<and> down_flag (fst (treshold (fst (treshold classify_init (- 1) (- 1))) 101 4)) = 0
   \<and> right_flag (fst (treshold (fst (treshold classify_init (- 1) (- 1))) 101 4)) = 1
   \<and> left_flag (fst (treshold (fst (treshold classify_init (- 1) (- 1))) 101 4)) = 0"
proof -
  define b where "b = fst (treshold classify_init (- 1) (- 1))"
  define t where "t = fst (treshold b 101 4)"
  have fb: "up_flag b = 0" "down_flag b = 1" "right_flag b = 0" "left_flag b = 1"
    "vertical_prev_amplitude b = - 1" "horizontal_prev_amplitude b = - 1"
    by (simp_all add: b_def treshold_flags treshold_prev classify_init_fields)
  have ft: "up_flag t \<noteq> up_flag b" "down_flag t \<noteq> down_flag b"
    "right_flag t \<noteq> right_flag b" "left_flag t \<noteq> left_flag b"
    by (simp_all add: t_def treshold_flags fb)
  have "up_flag t = 1 \<and> down_flag t = 0 \<and> right_flag t = 1 \<and> left_flag t = 0"
    using treshold_flag_changes [of b 101 4] ft unfolding t_def [symmetric]
    by (simp add: fb)
  with ft show ?thesis
    unfolding t_def b_def by blast
qed

text \<open>
  Claim C6 as stated lets at most one flag change in a call. The first call of a fresh
  object with the sample (101, 4) sets the up flag and the right flag.
\<close>

theorem treshold_two_flags_change:
  "\<not> changed_flags classify_init (fst (treshold classify_init 101 4)) \<le> 1"
proof -
  have "up_flag (fst (treshold classify_init 101 4)) = 1"
    "down_flag (fst (treshold classify_init 101 4)) = 0"
    "right_flag (fst (treshold classify_init 101 4)) = 1"
    "left_flag (fst (treshold classify_init 101 4)) = 0"
    by (simp_all add: treshold_flags classify_init_fields)
  then show ?thesis
    by (simp add: changed_flags_def classify_init_fields)
qed

section \<open>The correlation classifier, step by step\<close>

lemma py_append_simps:
  "py_append (PList xs) v = Inr (PList (xs @ [v]), PNone)"
  "py_append PNone v = Inl AttributeError"
  "py_append (PNum a) v = Inl AttributeError"
  by (simp_all add: py_append_def)

lemma py_append_returns_None: "py_append x v = Inr r \<Longrightarrow> snd r = PNone"
  by (cases x) (auto simp: py_append_simps)

lemma py_append_error: "py_append x v = Inl e \<Longrightarrow> e = AttributeError"
  by (cases x) (auto simp: py_append_simps)

lemma py_pop0_None: "py_pop0 PNone = Inl AttributeError"
  by (simp add: py_pop0_def)

text \<open>What lines 143 to 150 leave in the two stack attributes, when they raise nothing.\<close>

lemma template_match_push_Inr:
  assumes "template_match_push s v h n = Inr s'"
  shows "vertical_signal_stack s' = PNone" and "horizontal_signal_stack s' = PNone"
    and "status s' = status s" and "iterator s \<le> n"
proof -
  obtain a where a: "py_append (vertical_signal_stack s) v = Inr a"
    using assms by (cases "py_append (vertical_signal_stack s) v")
      (simp_all add: template_match_push_def Let_def)
  obtain b where b: "py_append (horizontal_signal_stack s) h = Inr b"
    using assms a by (cases "py_append (horizontal_signal_stack s) h")
      (simp_all add: template_match_push_def Let_def)
  have sa: "snd a = PNone" and sb: "snd b = PNone"
    using a b by (auto dest: py_append_returns_None)
  show le: "iterator s \<le> n"
  proof (rule ccontr)
    assume "\<not> iterator s \<le> n"
    then have "template_match_push s v h n = Inl AttributeError"
      by (simp add: template_match_push_def Let_def a b sa py_pop0_None)
    with assms show False by simp
  qed
  then have "s' = s\<lparr>vertical_amplitude := v, horizontal_amplitude := h,
      vertical_signal_stack := PNone, horizontal_signal_stack := PNone\<rparr>"
    using assms by (simp add: template_match_push_def Let_def a b sa sb)
  then show "vertical_signal_stack s' = PNone" and "horizontal_signal_stack s' = PNone"
    and "status s' = status s"
    by simp_all
qed

lemma template_match_push_error:
  assumes "template_match_push s v h n = Inl e"
  shows "e = AttributeError"
proof (cases "py_append (vertical_signal_stack s) v")
  case (Inl e1)
  with assms py_append_error [OF Inl] show ?thesis
    by (simp add: template_match_push_def Let_def)
next
  case a: (Inr a)
  show ?thesis
  proof (cases "py_append (horizontal_signal_stack s) h")
    case (Inl e2)
    with assms a py_append_error [OF Inl] show ?thesis
      by (simp add: template_match_push_def Let_def)
  next
    case b: (Inr b)
    have "snd a = PNone"
      using a by (rule py_append_returns_None)
    with assms a b show ?thesis
      by (simp add: template_match_push_def Let_def py_pop0_None split: if_splits)
  qed
qed

lemma template_match_push_lists:
  assumes "vertical_signal_stack s = PList xs" and "horizontal_signal_stack s = PList ys"
  shows "template_match_push s v h n =
     (if iterator s > n then Inl AttributeError
      else Inr (s\<lparr>vertical_amplitude := v, horizontal_amplitude := h,
                  vertical_signal_stack := PNone, horizontal_signal_stack := PNone\<rparr>))"
  using assms by (simp add: template_match_push_def Let_def py_append_simps py_pop0_None)

lemma pearsonr_None: "pearsonr PNone y = Inl PearsonrError"
  by (simp add: pearsonr_def)

lemma template_match_raises:
  "template_match s v h n = Inl AttributeError \<or> template_match s v h n = Inl PearsonrError"
proof (cases "template_match_push s v h n")
  case (Inl e)
  then show ?thesis
    by (simp add: template_match_def template_match_push_error)
next
  case (Inr s')
  have "horizontal_signal_stack s' = PNone"
    using Inr by (rule template_match_push_Inr)
  then have "template_match_correlate s' = Inl PearsonrError"
    by (simp add: template_match_correlate_def pearsonr_None)
  then show ?thesis
    by (simp add: template_match_def Inr template_match_label_def)
qed

section \<open>Properties of the correlation classifier\<close>

text \<open>
  Claim C2 asks that no call of either classifier fails. \<^verbatim>\<open>treshold\<close> is a total function of
  the state and the two amplitudes. \<^verbatim>\<open>template_match\<close> is not: already the first call on a
  fresh object, here with the sample (0, 0) and the default template size 500, rebinds both
  stacks to \<^verbatim>\<open>None\<close> (line 145 assigns what \<^verbatim>\<open>append\<close> returns) and ends in the exception
  that \<^verbatim>\<open>pearsonr\<close> raises on \<^verbatim>\<open>None\<close> at line 152.
\<close>

theorem template_match_first_call_raises:
  "template_match classify_init 0 0 500 = Inl PearsonrError"
proof -
  have "template_match_push classify_init 0 0 500 =
      Inr (classify_init\<lparr>vertical_amplitude := 0, horizontal_amplitude := 0,
             vertical_signal_stack := PNone, horizontal_signal_stack := PNone\<rparr>)"
    by (simp add: template_match_push_lists [where xs = "[]" and ys = "[]"]
        classify_init_fields)
  then show ?thesis
    by (simp add: template_match_def template_match_label_def template_match_correlate_def
        pearsonr_None)
qed

text \<open>
  Claim C4 asks for a FIFO window: capacity 3, pushing 1, 2, 3, 4 leaves 2, 3, 4. In the
  source the first push leaves \<^verbatim>\<open>None\<close> in both stack attributes, not the list holding 1,
  and the second push raises \<^verbatim>\<open>AttributeError\<close>, \<^verbatim>\<open>None\<close> having no \<^verbatim>\<open>append\<close>.
\<close>

theorem template_match_push_loses_window:
  "template_match_push classify_init 1 1 3 =
     Inr (classify_init\<lparr>vertical_amplitude := 1, horizontal_amplitude := 1,
            vertical_signal_stack := PNone, horizontal_signal_stack := PNone\<rparr>)
   \<and> template_match_push
        (classify_init\<lparr>vertical_amplitude := 1, horizontal_amplitude := 1,
            vertical_signal_stack := PNone, horizontal_signal_stack := PNone\<rparr>) 2 2 3
      = Inl AttributeError"
proof
  show "template_match_push classify_init 1 1 3 =
     Inr (classify_init\<lparr>vertical_amplitude := 1, horizontal_amplitude := 1,
            vertical_signal_stack := PNone, horizontal_signal_stack := PNone\<rparr>)"
    by (simp add: template_match_push_lists [where xs = "[]" and ys = "[]"]
        classify_init_fields)
  show "template_match_push
        (classify_init\<lparr>vertical_amplitude := 1, horizontal_amplitude := 1,
            vertical_signal_stack := PNone, horizontal_signal_stack := PNone\<rparr>) 2 2 3
      = Inl AttributeError"
    by (simp add: template_match_push_def Let_def py_append_simps)
qed

lemma template_match_never_returns: "template_match s v h n \<noteq> Inr r"
  using template_match_raises [of s v h n] by auto

lemma template_match_on_lists:
  assumes "vertical_signal_stack s = PList xs" and "horizontal_signal_stack s = PList ys"
    and "iterator s \<le> n"
  shows "template_match s v h n = Inl PearsonrError"
proof -
  have "template_match_push s v h n =
      Inr (s\<lparr>vertical_amplitude := v, horizontal_amplitude := h,
             vertical_signal_stack := PNone, horizontal_signal_stack := PNone\<rparr>)"
    using assms by (simp add: template_match_push_lists)
  then show ?thesis
    by (simp add: template_match_def template_match_label_def template_match_correlate_def
        pearsonr_None)
qed

text \<open>A stream ends with the exception of its first call.\<close>

lemma template_match_run_first:
  assumes "template_match s v h n = Inl e"
  shows "template_match_run s ((v, h) # xs) n = Inl e"
  using assms by simp

lemma template_match_run_raises:
  assumes "xs \<noteq> []"
  shows "template_match_run s xs n = Inl AttributeError
    \<or> template_match_run s xs n = Inl PearsonrError"
proof -
  obtain v h ys where xs: "xs = (v, h) # ys"
    using assms by (cases xs) auto
  from template_match_raises [of s v h n] show ?thesis
    unfolding xs by (auto dest: template_match_run_first)
qed

text \<open>
  Claim C3 asks that a call made while a window holds fewer elements than the template size
  returns the centre label. On an object whose five templates have been assigned lists of
  length 3, the first call with template size 3 (each window would hold one element) returns
  no label: it ends in the exception of \<^verbatim>\<open>pearsonr\<close> at line 152, the stacks having been
  rebound to \<^verbatim>\<open>None\<close> at lines 145 and 146.
\<close>

theorem template_match_warmup_stream_raises:
  "template_match_run
     (classify_init\<lparr>left_template := PList [1, 2, 3], right_template := PList [3, 2, 1],
        up_template := PList [1, 2, 3], down_template := PList [3, 2, 1],
        blink_template := PList [1, 3, 1]\<rparr>) [(1, 1)] 3
   = Inl PearsonrError"
  by (rule template_match_run_first, rule template_match_on_lists [where xs = "[]" and ys = "[]"])
    (simp_all add: classify_init_fields)

text \<open>
  Claim C5 asks that, once both windows are full, the gestures are checked in the order left,
  right, up, down, blink and the last one that matches gives the label. With templates of
  length 2 and template size 2, the stream (1, 1), (2, 2) would fill both windows with 1, 2,
  which is the left, the up and the blink template, so that the second label would be
  blink. The stream returns no label: its first call raises, as every call does.
\<close>

theorem template_match_matching_stream_raises:
  "template_match_run
     (classify_init\<lparr>left_template := PList [1, 2], right_template := PList [2, 1],
        up_template := PList [1, 2], down_template := PList [2, 1],
        blink_template := PList [1, 2]\<rparr>) [(1, 1), (2, 2)] 2
   = Inl PearsonrError"
  by (rule template_match_run_first, rule template_match_on_lists [where xs = "[]" and ys = "[]"])
    (simp_all add: classify_init_fields)

text \<open>
  Claim C7 asks that a full window of equal amplitudes gives the centre label and never a
  crash. With templates of length 3 and template size 3, the stream (1, 2), (1, 2), (1, 2)
  would fill the vertical window with 1, 1, 1 and the horizontal window with 2, 2, 2. The
  stream returns no label: its first call raises.
\<close>

theorem template_match_constant_stream_raises:
  "template_match_run
     (classify_init\<lparr>left_template := PList [1, 2, 3], right_template := PList [3, 2, 1],
        up_template := PList [1, 2, 3], down_template := PList [3, 2, 1],
        blink_template := PList [1, 3, 1]\<rparr>) [(1, 2), (1, 2), (1, 2)] 3
   = Inl PearsonrError"
  by (rule template_match_run_first, rule template_match_on_lists [where xs = "[]" and ys = "[]"])
    (simp_all add: classify_init_fields)

end
